theory Spec2Isabelle
  imports Main "HOL-Library.Product_Lexorder"
begin

section \<open>The task manager of \<^verbatim>\<open>src/main.py\<close>\<close>

text \<open>
  The program keeps a list of \<^verbatim>\<open>Task\<close> objects in a \<^verbatim>\<open>TaskManager\<close> and mirrors it in
  the file \<^verbatim>\<open>tasks.json\<close>. The embedding follows the source method by method.
  \<^item> Task objects live in a heap (a list, an object's address is its index); \<^verbatim>\<open>self.tasks\<close>
    is a list of addresses. Python compares and removes tasks by identity, and the methods
    mutate them in place.
  \<^item> The file is kept by what \<^verbatim>\<open>json.load\<close> makes of its text: a JSON value, or text that
    \<^verbatim>\<open>json.load\<close> rejects. \<^verbatim>\<open>json.dump\<close> and \<^verbatim>\<open>json.load\<close> are taken as inverse to each other
    on JSON values. Numbers with a fraction or an exponent are left out.
  \<^item> A Python exception that no \<^verbatim>\<open>except\<close> clause of the source catches is the outcome
    \<open>Raises\<close>; a caught one is the branch of the handler.
  \<^item> Every \<^verbatim>\<open>print\<close> of the source appends one message to \<open>printed\<close>; a message keeps the
    values that the format string interpolates.
\<close>

subsection \<open>Dates and times\<close>

text \<open>
  A naive \<^verbatim>\<open>datetime.datetime\<close>. Python admits exactly the values that satisfy
  \<open>valid_datetime\<close>.
\<close>

record datetime =
  year :: nat
  month :: nat
  day :: nat
  hour :: nat
  minute :: nat
  second :: nat
  microsecond :: nat

definition is_leap :: "nat \<Rightarrow> bool" where
  "is_leap y = (y mod 4 = 0 \<and> (y mod 100 \<noteq> 0 \<or> y mod 400 = 0))"

definition days_in_month :: "nat \<Rightarrow> nat \<Rightarrow> nat" where
  "days_in_month y m =
     (if m = 2 then (if is_leap y then 29 else 28)
      else if m = 4 \<or> m = 6 \<or> m = 9 \<or> m = 11 then 30 else 31)"

definition valid_date :: "nat \<Rightarrow> nat \<Rightarrow> nat \<Rightarrow> bool" where
  "valid_date y m d =
     (1 \<le> y \<and> y \<le> 9999 \<and> 1 \<le> m \<and> m \<le> 12 \<and> 1 \<le> d \<and> d \<le> days_in_month y m)"

definition valid_datetime :: "datetime \<Rightarrow> bool" where
  "valid_datetime t =
     (valid_date (year t) (month t) (day t) \<and> hour t < 24 \<and> minute t < 60 \<and>
      second t < 60 \<and> microsecond t < 1000000)"

text \<open>\<^verbatim>\<open>datetime.max\<close>\<close>

definition datetime_max :: datetime where
  "datetime_max =
     \<lparr>year = 9999, month = 12, day = 31, hour = 23, minute = 59, second = 59,
      microsecond = 999999\<rparr>"

text \<open>
  Python orders naive datetimes as the tuples
  \<^verbatim>\<open>(year, month, day, hour, minute, second, microsecond)\<close>, lexicographically.
\<close>

type_synonym dt_tuple = "nat \<times> nat \<times> nat \<times> nat \<times> nat \<times> nat \<times> nat"

definition dt_tuple :: "datetime \<Rightarrow> dt_tuple" where
  "dt_tuple t = (year t, month t, day t, hour t, minute t, second t, microsecond t)"

subsection \<open>Decimal text\<close>

definition digit_char :: "nat \<Rightarrow> char" where
  "digit_char n = ''0123456789'' ! (n mod 10)"

fun show_nat :: "nat \<Rightarrow> string" where
  "show_nat n = (if n < 10 then [digit_char n] else show_nat (n div 10) @ [digit_char n])"

declare show_nat.simps [simp del]

text \<open>\<^verbatim>\<open>"%0wd" % n\<close>: at least \<open>w\<close> digits, padded with zeros on the left.\<close>

definition zero_pad :: "nat \<Rightarrow> nat \<Rightarrow> string" where
  "zero_pad w n = replicate (w - length (show_nat n)) CHR ''0'' @ show_nat n"

text \<open>
  \<^verbatim>\<open>str(dt)\<close> of a datetime is \<^verbatim>\<open>dt.isoformat(sep=' ')\<close>: the date, a blank, the time, and
  the microseconds only when they are not zero.
\<close>

definition str_datetime :: "datetime \<Rightarrow> string" where
  "str_datetime t =
     zero_pad 4 (year t) @ ''-'' @ zero_pad 2 (month t) @ ''-'' @ zero_pad 2 (day t) @ '' '' @
     zero_pad 2 (hour t) @ '':'' @ zero_pad 2 (minute t) @ '':'' @ zero_pad 2 (second t) @
     (if microsecond t = 0 then [] else ''.'' @ zero_pad 6 (microsecond t))"

subsection \<open>JSON values and \<^verbatim>\<open>datetime.strptime\<close>\<close>

datatype json =
  JNull
| JBool bool
| JInt int
| JStr string
| JList "json list"
| JObj "(string \<times> json) list"

text \<open>
  What \<^verbatim>\<open>tasks.json\<close> holds: text that \<^verbatim>\<open>json.load\<close> rejects with \<^verbatim>\<open>JSONDecodeError\<close>, or
  the text of a JSON value. A \<open>JObj\<close> lists the items of the parsed dictionary in order.
\<close>

datatype file_text = NotJson | Json json

text \<open>The exceptions that leave a method of the source uncaught.\<close>

datatype exn = KeyError | TypeError | ValueError | OverflowError

text \<open>
  \<^verbatim>\<open>datetime.strptime(s, "%Y-%m-%d")\<close> compiles the format to the regular expression
  \<^verbatim>\<open>(?P<Y>\d\d\d\d)-(?P<m>1[0-2]|0[1-9]|[1-9])-(?P<d>3[0-1]|[1-2]\d|0[1-9]|[1-9]| [1-9])\<close>
  and matches it at the start of \<open>s\<close>. Each piece below returns its matches in the order in
  which the backtracking matcher tries them, with the text left over; the first complete
  match is the one the matcher finds. Digits are the ASCII digits.
\<close>

definition is_digit :: "char \<Rightarrow> bool" where
  "is_digit c = (c \<in> set ''0123456789'')"

definition digit_val :: "char \<Rightarrow> nat" where
  "digit_val c = of_char c - 48"

definition re_lit :: "char \<Rightarrow> string \<Rightarrow> string list" where
  "re_lit c s = (case s of x # r \<Rightarrow> if x = c then [r] else [] | [] \<Rightarrow> [])"

definition re_Y :: "string \<Rightarrow> (nat \<times> string) list" where
  "re_Y s =
     (case s of
        a # b # c # d # r \<Rightarrow>
          if is_digit a \<and> is_digit b \<and> is_digit c \<and> is_digit d
          then [(1000 * digit_val a + 100 * digit_val b + 10 * digit_val c + digit_val d, r)]
          else []
      | _ \<Rightarrow> [])"

text \<open>One alternative of two characters, and one of a single character.\<close>

definition re_two :: "(char \<Rightarrow> bool) \<Rightarrow> (char \<Rightarrow> bool) \<Rightarrow> string \<Rightarrow> (nat \<times> string) list" where
  "re_two p q s =
     (case s of
        a # b # r \<Rightarrow> if p a \<and> q b then [(10 * digit_val a + digit_val b, r)] else []
      | _ \<Rightarrow> [])"

definition re_one :: "(char \<Rightarrow> bool) \<Rightarrow> string \<Rightarrow> (nat \<times> string) list" where
  "re_one p s = (case s of a # r \<Rightarrow> if p a then [(digit_val a, r)] else [] | [] \<Rightarrow> [])"

definition nonzero_digit :: "char \<Rightarrow> bool" where
  "nonzero_digit c = (is_digit c \<and> c \<noteq> CHR ''0'')"

definition re_m :: "string \<Rightarrow> (nat \<times> string) list" where
  "re_m s =
     re_two (\<lambda>c. c = CHR ''1'') (\<lambda>c. c \<in> set ''012'') s @
     re_two (\<lambda>c. c = CHR ''0'') nonzero_digit s @
     re_one nonzero_digit s"

text \<open>The last alternative is a blank and a digit; \<^verbatim>\<open>int(" 5")\<close> is 5.\<close>

definition re_d :: "string \<Rightarrow> (nat \<times> string) list" where
  "re_d s =
     re_two (\<lambda>c. c = CHR ''3'') (\<lambda>c. c \<in> set ''01'') s @
     re_two (\<lambda>c. c \<in> set ''12'') is_digit s @
     re_two (\<lambda>c. c = CHR ''0'') nonzero_digit s @
     re_one nonzero_digit s @
     (case s of a # b # r \<Rightarrow> if a = CHR '' '' \<and> nonzero_digit b then [(digit_val b, r)] else []
      | _ \<Rightarrow> [])"

definition re_match :: "string \<Rightarrow> (nat \<times> nat \<times> nat \<times> string) list" where
  "re_match s =
     concat (map (\<lambda>(y, r1).
       concat (map (\<lambda>r2.
         concat (map (\<lambda>(m, r3).
           concat (map (\<lambda>r4.
             map (\<lambda>(d, r5). (y, m, d, r5)) (re_d r4))
           (re_lit CHR ''-'' r3)))
         (re_m r2)))
       (re_lit CHR ''-'' r1)))
     (re_Y s))"

text \<open>
  \<^verbatim>\<open>strptime\<close> raises \<^verbatim>\<open>TypeError\<close> when its first argument is not a string, and \<^verbatim>\<open>ValueError\<close>
  when the text does not match, when text remains after the match, and when the numbers
  are not a date.
\<close>

definition strptime :: "json \<Rightarrow> exn + datetime" where
  "strptime v =
     (case v of
        JStr s \<Rightarrow>
          (case re_match s of
             [] \<Rightarrow> Inl ValueError
           | (y, m, d, rest) # _ \<Rightarrow>
               if rest \<noteq> [] then Inl ValueError
               else if \<not> valid_date y m d then Inl ValueError
               else Inr \<lparr>year = y, month = m, day = d, hour = 0, minute = 0, second = 0,
                         microsecond = 0\<rparr>)
      | _ \<Rightarrow> Inl TypeError)"

text \<open>
  \<^verbatim>\<open>dt + timedelta(days=n)\<close>: \<^verbatim>\<open>timedelta\<close> raises \<^verbatim>\<open>OverflowError\<close> beyond 999999999 days,
  and so does the sum when it leaves the years 1 to 9999. The time of day stays.
\<close>

definition next_day :: "datetime \<Rightarrow> datetime option" where
  "next_day t =
     (if day t < days_in_month (year t) (month t) then Some (t\<lparr>day := day t + 1\<rparr>)
      else if month t < 12 then Some (t\<lparr>month := month t + 1, day := 1\<rparr>)
      else if year t < 9999 then Some (t\<lparr>year := year t + 1, month := 1, day := 1\<rparr>)
      else None)"

definition prev_day :: "datetime \<Rightarrow> datetime option" where
  "prev_day t =
     (if 1 < day t then Some (t\<lparr>day := day t - 1\<rparr>)
      else if 1 < month t
        then Some (t\<lparr>month := month t - 1, day := days_in_month (year t) (month t - 1)\<rparr>)
      else if 1 < year t then Some (t\<lparr>year := year t - 1, month := 12, day := 31\<rparr>)
      else None)"

fun shift_days :: "nat \<Rightarrow> (datetime \<Rightarrow> datetime option) \<Rightarrow> datetime \<Rightarrow> datetime option" where
  "shift_days 0 f t = Some t"
| "shift_days (Suc n) f t = (case f t of None \<Rightarrow> None | Some t' \<Rightarrow> shift_days n f t')"

definition add_days :: "datetime \<Rightarrow> int \<Rightarrow> exn + datetime" where
  "add_days t n =
     (if 999999999 < \<bar>n\<bar> then Inl OverflowError
      else case shift_days (nat \<bar>n\<bar>) (if n < 0 then prev_day else next_day) t of
             None \<Rightarrow> Inl OverflowError
           | Some t' \<Rightarrow> Inr t')"

subsection \<open>Tasks and the state of the program\<close>

text \<open>
  The attributes of a \<^verbatim>\<open>Task\<close>, with the types of the data model: the source passes
  integers for \<^verbatim>\<open>task_id\<close> and \<^verbatim>\<open>priority\<close>, text for \<^verbatim>\<open>name\<close>, and a datetime or \<^verbatim>\<open>None\<close>
  for \<^verbatim>\<open>due_date\<close>. \<^verbatim>\<open>status\<close> is text, as the source stores it.
\<close>

record task =
  task_id :: int
  name :: string
  priority :: int
  due_date :: "datetime option"
  status :: string

text \<open>\<^verbatim>\<open>Task.__init__\<close>\<close>

definition Task :: "int \<Rightarrow> string \<Rightarrow> int \<Rightarrow> datetime option \<Rightarrow> task" where
  "Task i n p d = \<lparr>task_id = i, name = n, priority = p, due_date = d, status = ''Pending''\<rparr>"

text \<open>
  One constructor for each \<^verbatim>\<open>print\<close> that the source can reach, in the order of the source.
  The handler of \<^verbatim>\<open>prioritize_tasks\<close> is never entered (see there), so its message has none.
\<close>

datatype message =
  NoDueDate string
| TaskLine task
| NotFound int
| Removed int
| Prioritized
| MarkedComplete int
| SaveError
| LoadError

text \<open>
  The state: the heap of task objects, \<^verbatim>\<open>self.tasks\<close>, the file \<^verbatim>\<open>tasks.json\<close> (\<open>disk\<close>, \<open>None\<close> when
  \<^verbatim>\<open>os.path.isfile\<close> is false), whether \<^verbatim>\<open>open\<close> succeeds for reading and for writing, and
  what was printed. \<open>saves\<close> counts the calls of \<^verbatim>\<open>save_tasks\<close>; the program does not read
  it.
\<close>

record world =
  heap :: "task list"
  tasks :: "nat list"
  disk :: "file_text option"
  can_read :: bool
  can_write :: bool
  printed :: "message list"
  saves :: nat

datatype outcome = Returns world | Raises exn world | Unmodelled

definition print :: "message \<Rightarrow> world \<Rightarrow> world" where
  "print m w = w\<lparr>printed := printed w @ [m]\<rparr>"

text \<open>The object that an address of \<^verbatim>\<open>self.tasks\<close> points to.\<close>

definition obj :: "world \<Rightarrow> nat \<Rightarrow> task" where
  "obj w r = heap w ! r"

text \<open>The tasks of the collection, in order.\<close>

definition task_list :: "world \<Rightarrow> task list" where
  "task_list w = map (obj w) (tasks w)"

text \<open>Every address of \<^verbatim>\<open>self.tasks\<close> is an object of the heap, as in every Python state.\<close>

definition wf :: "world \<Rightarrow> bool" where
  "wf w = list_all (\<lambda>r. r < length (heap w)) (tasks w)"

subsection \<open>The methods of \<^verbatim>\<open>Task\<close>\<close>

text \<open>\<^verbatim>\<open>Task.mark_complete\<close>, on the object at address \<open>r\<close>.\<close>

definition mark_complete :: "nat \<Rightarrow> world \<Rightarrow> world" where
  "mark_complete r w = w\<lparr>heap := (heap w)[r := (obj w r)\<lparr>status := ''Completed''\<rparr>]\<rparr>"

text \<open>\<^verbatim>\<open>Task.postpone\<close>. A datetime is always true in a condition.\<close>

definition postpone :: "nat \<Rightarrow> int \<Rightarrow> world \<Rightarrow> outcome" where
  "postpone r days w =
     (case due_date (obj w r) of
        Some d \<Rightarrow>
          (case add_days d days of
             Inl e \<Rightarrow> Raises e w
           | Inr d' \<Rightarrow> Returns (w\<lparr>heap := (heap w)[r := (obj w r)\<lparr>due_date := Some d'\<rparr>]\<rparr>))
      | None \<Rightarrow> Returns (print (NoDueDate (name (obj w r))) w))"

subsection \<open>The methods of \<^verbatim>\<open>TaskManager\<close>\<close>

text \<open>
  \<^verbatim>\<open>task.__dict__\<close> as \<^verbatim>\<open>json.dump(..., default=str)\<close> writes it. \<^verbatim>\<open>json.dump\<close> writes \<^verbatim>\<open>None\<close> as
  \<^verbatim>\<open>null\<close> by itself; it calls \<^verbatim>\<open>default\<close> only for a value it cannot write, here the
  datetime.
\<close>

definition task_dict :: "task \<Rightarrow> json" where
  "task_dict t =
     JObj [(''task_id'', JInt (task_id t)),
           (''name'', JStr (name t)),
           (''priority'', JInt (priority t)),
           (''due_date'', case due_date t of None \<Rightarrow> JNull | Some d \<Rightarrow> JStr (str_datetime d)),
           (''status'', JStr (status t))]"

text \<open>
  \<^verbatim>\<open>save_tasks\<close>: when \<^verbatim>\<open>open\<close> fails the \<^verbatim>\<open>IOError\<close> is caught and reported, and the file is as
  before.
\<close>

definition save_tasks :: "world \<Rightarrow> world" where
  "save_tasks w =
     (let w1 = w\<lparr>saves := saves w + 1\<rparr>
      in if can_write w1 then w1\<lparr>disk := Some (Json (JList (map task_dict (task_list w1))))\<rparr>
         else print SaveError w1)"

text \<open>\<^verbatim>\<open>task_data[key]\<close>: only a dictionary can be subscripted with a string.\<close>

definition subscript :: "json \<Rightarrow> string \<Rightarrow> exn + json" where
  "subscript d k =
     (case d of
        JObj kvs \<Rightarrow> (case map_of kvs k of None \<Rightarrow> Inl KeyError | Some v \<Rightarrow> Inr v)
      | _ \<Rightarrow> Inl TypeError)"

text \<open>
  The values that the body of the loop of \<^verbatim>\<open>load_tasks\<close> reads from \<^verbatim>\<open>task_data\<close>, in the
  order in which Python evaluates them.
\<close>

definition task_data_fields :: "json \<Rightarrow> exn + (json \<times> json \<times> json \<times> datetime option \<times> json)" where
  "task_data_fields d =
     (case subscript d ''task_id'' of Inl e \<Rightarrow> Inl e | Inr i \<Rightarrow>
     (case subscript d ''name'' of Inl e \<Rightarrow> Inl e | Inr n \<Rightarrow>
     (case subscript d ''priority'' of Inl e \<Rightarrow> Inl e | Inr p \<Rightarrow>
     (case subscript d ''due_date'' of Inl e \<Rightarrow> Inl e | Inr dd \<Rightarrow>
     (case (if dd \<noteq> JStr ''None'' then map_sum id Some (strptime dd) else Inr None) of
        Inl e \<Rightarrow> Inl e | Inr due \<Rightarrow>
     (case subscript d ''status'' of Inl e \<Rightarrow> Inl e | Inr st \<Rightarrow>
      Inr (i, n, p, due, st)))))))"

text \<open>
  The task that the loop body builds: \<^verbatim>\<open>Task(...)\<close>, then \<^verbatim>\<open>task.status = task_data['status']\<close>.
  Python stores whatever JSON values the file has; the record \<open>task\<close> holds an integer
  \<^verbatim>\<open>task_id\<close> and \<^verbatim>\<open>priority\<close> and a textual \<^verbatim>\<open>name\<close> and \<^verbatim>\<open>status\<close>, and other values are
  outside the model (\<open>None\<close> here, \<open>Unmodelled\<close> for the load).
\<close>

fun typed_task :: "json \<times> json \<times> json \<times> datetime option \<times> json \<Rightarrow> task option" where
  "typed_task (JInt i, JStr n, JInt p, due, JStr st) = Some ((Task i n p due)\<lparr>status := st\<rparr>)"
| "typed_task _ = None"

definition new_task :: "task \<Rightarrow> world \<Rightarrow> nat \<times> world" where
  "new_task t w = (length (heap w), w\<lparr>heap := heap w @ [t]\<rparr>)"

definition append_task :: "nat \<Rightarrow> world \<Rightarrow> world" where
  "append_task r w = w\<lparr>tasks := tasks w @ [r]\<rparr>"

text \<open>The loop of \<^verbatim>\<open>load_tasks\<close>: an exception leaves the tasks appended so far.\<close>

fun load_loop :: "json list \<Rightarrow> world \<Rightarrow> outcome" where
  "load_loop [] w = Returns w"
| "load_loop (d # ds) w =
     (case task_data_fields d of
        Inl e \<Rightarrow> Raises e w
      | Inr raw \<Rightarrow>
          (case typed_task raw of
             None \<Rightarrow> Unmodelled
           | Some t \<Rightarrow> (let (r, w1) = new_task t w in load_loop ds (append_task r w1))))"

text \<open>
  \<^verbatim>\<open>for task_data in tasks_data\<close>: a list gives its elements, a dictionary its keys, a string
  its characters; nothing else can be iterated.
\<close>

definition py_iter :: "json \<Rightarrow> exn + json list" where
  "py_iter v =
     (case v of
        JList xs \<Rightarrow> Inr xs
      | JObj kvs \<Rightarrow> Inr (map (\<lambda>kv. JStr (fst kv)) kvs)
      | JStr s \<Rightarrow> Inr (map (\<lambda>c. JStr [c]) s)
      | _ \<Rightarrow> Inl TypeError)"

text \<open>
  \<^verbatim>\<open>load_tasks\<close>: the handler catches \<^verbatim>\<open>IOError\<close> (from \<^verbatim>\<open>open\<close>) and \<^verbatim>\<open>json.JSONDecodeError\<close>
  (from \<^verbatim>\<open>json.load\<close>) and nothing else.
\<close>

definition load_tasks :: "world \<Rightarrow> outcome" where
  "load_tasks w =
     (case disk w of
        None \<Rightarrow> Returns w
      | Some c \<Rightarrow>
          if \<not> can_read w then Returns (print LoadError w)
          else (case c of
                  NotJson \<Rightarrow> Returns (print LoadError w)
                | Json v \<Rightarrow>
                    (case py_iter v of
                       Inl e \<Rightarrow> Raises e w
                     | Inr items \<Rightarrow> load_loop items w)))"

text \<open>\<^verbatim>\<open>TaskManager.__init__\<close>\<close>

definition TaskManager :: "world \<Rightarrow> outcome" where
  "TaskManager w = load_tasks (w\<lparr>tasks := []\<rparr>)"

definition add_task :: "string \<Rightarrow> int \<Rightarrow> datetime option \<Rightarrow> world \<Rightarrow> world" where
  "add_task n p d w =
     (let i = int (length (tasks w)) + 1;
          (r, w1) = new_task (Task i n p d) w
      in save_tasks (append_task r w1))"

definition list_tasks :: "world \<Rightarrow> world" where
  "list_tasks w = foldl (\<lambda>w' t. print (TaskLine t) w') w (task_list w)"

text \<open>
  \<^verbatim>\<open>get_task_by_id\<close>: the first task of the collection with the id, or \<^verbatim>\<open>None\<close> and a message.
\<close>

definition get_task_by_id :: "int \<Rightarrow> world \<Rightarrow> nat option \<times> world" where
  "get_task_by_id i w =
     (case find (\<lambda>r. task_id (obj w r) = i) (tasks w) of
        Some r \<Rightarrow> (Some r, w)
      | None \<Rightarrow> (None, print (NotFound i) w))"

definition remove_task :: "int \<Rightarrow> world \<Rightarrow> world" where
  "remove_task i w =
     (case get_task_by_id i w of
        (Some r, w1) \<Rightarrow> print (Removed i) (save_tasks (w1\<lparr>tasks := remove1 r (tasks w1)\<rparr>))
      | (None, w1) \<Rightarrow> w1)"

text \<open>
  The key of \<^verbatim>\<open>prioritize_tasks\<close>:
  \<^verbatim>\<open>(x.priority, x.due_date if x.due_date else datetime.max)\<close>.
\<close>

definition sort_key_of :: "task \<Rightarrow> int \<times> dt_tuple" where
  "sort_key_of x =
     (priority x, case due_date x of Some d \<Rightarrow> dt_tuple d | None \<Rightarrow> dt_tuple datetime_max)"

text \<open>
  \<^verbatim>\<open>list.sort\<close> is stable, and a stable sort has one result, which \<open>sort_key\<close> computes.
  Integers and datetimes always compare, and \<^verbatim>\<open>save_tasks\<close> catches its own error, so the
  handler of \<^verbatim>\<open>prioritize_tasks\<close> is never entered.
\<close>

definition prioritize_tasks :: "world \<Rightarrow> world" where
  "prioritize_tasks w =
     print Prioritized
       (save_tasks (w\<lparr>tasks := sort_key (\<lambda>r. sort_key_of (obj w r)) (tasks w)\<rparr>))"

definition mark_task_complete :: "int \<Rightarrow> world \<Rightarrow> world" where
  "mark_task_complete i w =
     (case get_task_by_id i w of
        (Some r, w1) \<Rightarrow> print (MarkedComplete i) (save_tasks (mark_complete r w1))
      | (None, w1) \<Rightarrow> w1)"

subsection \<open>The public interface\<close>

datatype op =
  AddTask string int "datetime option"
| ListTasks
| GetTaskById int
| RemoveTask int
| PrioritizeTasks
| MarkTaskComplete int
| SaveTasks
| LoadTasks
| MarkComplete nat
| Postpone nat int

fun exec :: "op \<Rightarrow> world \<Rightarrow> outcome" where
  "exec (AddTask n p d) w = Returns (add_task n p d w)"
| "exec ListTasks w = Returns (list_tasks w)"
| "exec (GetTaskById i) w = Returns (snd (get_task_by_id i w))"
| "exec (RemoveTask i) w = Returns (remove_task i w)"
| "exec PrioritizeTasks w = Returns (prioritize_tasks w)"
| "exec (MarkTaskComplete i) w = Returns (mark_task_complete i w)"
| "exec SaveTasks w = Returns (save_tasks w)"
| "exec LoadTasks w = load_tasks w"
| "exec (MarkComplete r) w = Returns (mark_complete r w)"
| "exec (Postpone r days) w = postpone r days w"

text \<open>A sequence of calls; an uncaught exception ends it.\<close>

fun run :: "op list \<Rightarrow> world \<Rightarrow> outcome" where
  "run [] w = Returns w"
| "run (c # cs) w = (case exec c w of Returns w' \<Rightarrow> run cs w' | other \<Rightarrow> other)"

text \<open>A state with no tasks and no file, in which the file can be read and written.\<close>

definition fresh :: world where
  "fresh = \<lparr>heap = [], tasks = [], disk = None, can_read = True, can_write = True,
            printed = [], saves = 0\<rparr>"

text \<open>How a call ends: with an uncaught exception, and in which state.\<close>

definition uncaught :: "outcome \<Rightarrow> exn option" where
  "uncaught out = (case out of Raises e w \<Rightarrow> Some e | _ \<Rightarrow> None)"

definition final :: "outcome \<Rightarrow> world option" where
  "final out = (case out of Returns w \<Rightarrow> Some w | Raises e w \<Rightarrow> Some w | Unmodelled \<Rightarrow> None)"

text \<open>Calls of \<^verbatim>\<open>add_task\<close>, one after the other.\<close>

fun add_tasks :: "(string \<times> int \<times> datetime option) list \<Rightarrow> world \<Rightarrow> world" where
  "add_tasks [] w = w"
| "add_tasks ((n, p, d) # rest) w = add_tasks rest (add_task n p d w)"

text \<open>
  How a heap may differ from an earlier one: objects are added, and an object that was
  there keeps its \<^verbatim>\<open>task_id\<close>, and its \<^verbatim>\<open>status\<close> unless that becomes \<^verbatim>\<open>"Completed"\<close>.
\<close>

definition heap_evolves :: "task list \<Rightarrow> task list \<Rightarrow> bool" where
  "heap_evolves h h' =
     (length h \<le> length h' \<and>
      (\<forall>a < length h.
         task_id (h' ! a) = task_id (h ! a) \<and>
         (status (h' ! a) = status (h ! a) \<or> status (h' ! a) = ''Completed'')))"

subsection \<open>Sample data\<close>

definition jan15 :: datetime where
  "jan15 = \<lparr>year = 2024, month = 1, day = 15, hour = 0, minute = 0, second = 0,
             microsecond = 0\<rparr>"

definition jan16_noon :: datetime where
  "jan16_noon = \<lparr>year = 2024, month = 1, day = 16, hour = 12, minute = 30, second = 5,
                  microsecond = 250\<rparr>"

text \<open>A file with one record, as \<^verbatim>\<open>load_tasks\<close> expects it, with the given due date and status.\<close>

definition one_record :: "json \<Rightarrow> json \<Rightarrow> file_text" where
  "one_record due st =
     Json (JList [JObj [(''task_id'', JInt 1), (''name'', JStr ''Call mom''),
                        (''priority'', JInt 2), (''due_date'', due), (''status'', st)]])"

text \<open>The three calls of \<^verbatim>\<open>add_task\<close> of the driver, with fixed dates.\<close>

definition driver_tasks :: "(string \<times> int \<times> datetime option) list" where
  "driver_tasks =
     [(''Finish project'', 1, Some jan16_noon),
      (''Go grocery shopping'', 3, None),
      (''Call mom'', 2, Some jan15)]"

text \<open>Two tasks of one priority: the first without a due date, the second due at \<^verbatim>\<open>datetime.max\<close>.\<close>

definition tie_tasks :: "(string \<times> int \<times> datetime option) list" where
  "tie_tasks = [(''Read'', 1, None), (''Archive'', 1, Some datetime_max)]"

text \<open>Three tasks: two of one priority, the first of them without a due date, and one before both.\<close>

definition mixed_tasks :: "(string \<times> int \<times> datetime option) list" where
  "mixed_tasks = [(''Read'', 1, None), (''Write'', 1, Some jan15), (''Plan'', 0, None)]"

text \<open>The collection of the driver after its first task was completed.\<close>

definition one_done :: world where
  "one_done = mark_task_complete 1 (add_tasks driver_tasks fresh)"

section \<open>Properties\<close>

subsection \<open>What each method leaves unchanged\<close>

lemma print_fields [simp]:
  "heap (print m w) = heap w"
  "tasks (print m w) = tasks w"
  "disk (print m w) = disk w"
  "can_read (print m w) = can_read w"
  "can_write (print m w) = can_write w"
  "saves (print m w) = saves w"
  "printed (print m w) = printed w @ [m]"
  by (simp_all add: print_def)

lemma save_tasks_fields [simp]:
  "heap (save_tasks w) = heap w"
  "tasks (save_tasks w) = tasks w"
  "can_read (save_tasks w) = can_read w"
  "can_write (save_tasks w) = can_write w"
  "saves (save_tasks w) = Suc (saves w)"
  by (simp_all add: save_tasks_def Let_def)

lemma add_task_fields [simp]:
  "heap (add_task n p d w) = heap w @ [Task (int (length (tasks w)) + 1) n p d]"
  "tasks (add_task n p d w) = tasks w @ [length (heap w)]"
  by (simp_all add: add_task_def new_task_def append_task_def Let_def)

lemma prioritize_tasks_fields [simp]:
  "heap (prioritize_tasks w) = heap w"
  "tasks (prioritize_tasks w) = sort_key (\<lambda>r. sort_key_of (obj w r)) (tasks w)"
  by (simp_all add: prioritize_tasks_def)

subsection \<open>Adding tasks\<close>

lemma wf_add_task: "wf w \<Longrightarrow> wf (add_task n p d w)"
  by (auto simp: wf_def list_all_iff)

lemma task_list_add_task:
  assumes "wf w"
  shows "task_list (add_task n p d w) = task_list w @ [Task (int (length (tasks w)) + 1) n p d]"
proof -
  have "\<forall>r \<in> set (tasks w). r < length (heap w)"
    using assms by (simp add: wf_def list_all_iff)
  then have "map (obj (add_task n p d w)) (tasks w) = map (obj w) (tasks w)"
    by (simp add: obj_def nth_append)
  then show ?thesis
    by (simp add: task_list_def obj_def)
qed

lemma task_list_add_tasks:
  "wf w \<Longrightarrow>
   task_list (add_tasks args w) =
   task_list w @
   map (\<lambda>(k, n, p, d). Task (int k) n p d) (enumerate (Suc (length (tasks w))) args)"
proof (induction args arbitrary: w)
  case Nil
  then show ?case by simp
next
  case (Cons a rest)
  obtain n p d where a: "a = (n, p, d)"
    by (cases a) auto
  have "task_list (add_tasks (a # rest) w) = task_list (add_tasks rest (add_task n p d w))"
    by (simp add: a)
  also have "\<dots> = task_list (add_task n p d w) @
      map (\<lambda>(k, n, p, d). Task (int k) n p d) (enumerate (Suc (Suc (length (tasks w)))) rest)"
    using Cons.IH [OF wf_add_task [OF Cons.prems]] by simp
  also have "\<dots> = task_list w @
      map (\<lambda>(k, n, p, d). Task (int k) n p d) (enumerate (Suc (length (tasks w))) (a # rest))"
    by (simp add: task_list_add_task [OF Cons.prems] a add.commute [of 1])
  finally show ?case .
qed

lemma task_id_enumerate:
  "map task_id (map (\<lambda>(k, n, p, d). Task (int k) n p d) (enumerate i args)) =
   map int [i ..< i + length args]"
proof (induction args arbitrary: i)
  case Nil
  then show ?case by simp
next
  case (Cons a rest)
  have "[i ..< i + length (a # rest)] = i # [Suc i ..< Suc i + length rest]"
    by (subst upt_conv_Cons) simp_all
  then show ?case
    using Cons.IH [of "Suc i"] by (simp add: Task_def case_prod_beta)
qed

text \<open>
  C4: \<open>N\<close> calls of \<^verbatim>\<open>add_task\<close> on an empty collection, with nothing removed in between,
  assign the ids \<open>1, ..., N\<close> in the order of the calls: the \<open>k\<close>-th task of the collection
  is the one that the \<open>k\<close>-th call made, and its id is \<open>k\<close>.
\<close>

theorem add_assigns_ids_in_call_order:
  assumes "tasks w = []"
  shows "map task_id (task_list (add_tasks args w)) = map int [1 ..< 1 + length args] \<and>
         task_list (add_tasks args w) =
           map (\<lambda>(k, n, p, d). Task (int k) n p d) (enumerate 1 args)"
proof -
  have "wf w"
    using assms by (simp add: wf_def)
  moreover have "task_list w = []"
    using assms by (simp add: task_list_def)
  ultimately have *: "task_list (add_tasks args w) =
      map (\<lambda>(k, n, p, d). Task (int k) n p d) (enumerate 1 args)"
    using task_list_add_tasks [of w args] assms by simp
  show ?thesis
    unfolding * using task_id_enumerate [of 1 args] by simp
qed

theorem add_assigns_ids_in_call_order_witness:
  "tasks fresh = [] \<and> map task_id (task_list (add_tasks driver_tasks fresh)) = [1, 2, 3]"
proof -
  have empty: "tasks fresh = []"
    by (simp add: fresh_def)
  have "map task_id (task_list (add_tasks driver_tasks fresh)) =
        map int [1 ..< 1 + length driver_tasks]"
    using add_assigns_ids_in_call_order [OF empty, of driver_tasks] by (rule conjunct1)
  moreover have "map int [1 ..< 1 + length driver_tasks] = [1, 2, 3]"
    by (simp add: driver_tasks_def upt_rec)
  ultimately show ?thesis
    using empty by simp
qed

subsection \<open>Prioritizing\<close>

lemma obj_prioritize_tasks [simp]: "obj (prioritize_tasks w) r = obj w r"
  by (simp add: obj_def)

lemma sorted_prioritize_tasks:
  "sorted (map (\<lambda>r. sort_key_of (obj w r)) (tasks (prioritize_tasks w)))"
  by simp

lemma sorted_keys_nth:
  assumes "sorted (map f xs)" and "i < length xs" and "j < length xs" and "f (xs ! i) < f (xs ! j)"
  shows "i < j"
proof (rule ccontr)
  assume "\<not> i < j"
  then have "j \<le> i" by simp
  then have "map f xs ! j \<le> map f xs ! i"
    using assms(1,2) by (simp add: sorted_iff_nth_mono del: nth_map)
  then have "f (xs ! j) \<le> f (xs ! i)"
    using assms(2,3) by simp
  then show False
    using assms(4) by simp
qed

lemma dt_tuple_below_max:
  assumes "valid_datetime d" and "d \<noteq> datetime_max"
  shows "dt_tuple d < dt_tuple datetime_max"
proof -
  have "day d \<le> 31"
    using assms(1) by (auto simp: valid_datetime_def valid_date_def days_in_month_def split: if_splits)
  moreover have "year d \<le> 9999" "month d \<le> 12" "hour d \<le> 23" "minute d \<le> 59" "second d \<le> 59"
    "microsecond d \<le> 999999"
    using assms(1) by (auto simp: valid_datetime_def valid_date_def)
  moreover have "\<not> (year d = 9999 \<and> month d = 12 \<and> day d = 31 \<and> hour d = 23 \<and> minute d = 59 \<and>
      second d = 59 \<and> microsecond d = 999999)"
    using assms(2) by (cases d) (auto simp: datetime_max_def)
  ultimately show ?thesis
    unfolding dt_tuple_def datetime_max_def by (simp add: less_le)
qed

text \<open>
  C6: \<^verbatim>\<open>prioritize_tasks\<close> is idempotent: a second call leaves the collection in the order of
  the first, whatever the state.
\<close>

theorem prioritize_twice:
  "tasks (prioritize_tasks (prioritize_tasks w)) = tasks (prioritize_tasks w) \<and>
   task_list (prioritize_tasks (prioritize_tasks w)) = task_list (prioritize_tasks w)"
proof -
  have "tasks (prioritize_tasks (prioritize_tasks w)) =
        sort_key (\<lambda>r. sort_key_of (obj w r)) (tasks (prioritize_tasks w))"
    by (simp add: obj_def)
  also have "\<dots> = tasks (prioritize_tasks w)"
    by (rule sort_key_id_if_sorted) (rule sorted_prioritize_tasks)
  finally have "tasks (prioritize_tasks (prioritize_tasks w)) = tasks (prioritize_tasks w)" .
  then show ?thesis
    by (simp add: task_list_def obj_def)
qed


lemma nth_task_list: "i < length (tasks w) \<Longrightarrow> task_list w ! i = obj w (tasks w ! i)"
  by (simp add: task_list_def)

lemma prioritized_before:
  assumes "i < length (tasks (prioritize_tasks w))" and "j < length (tasks (prioritize_tasks w))"
    and "sort_key_of (task_list (prioritize_tasks w) ! i) <
         sort_key_of (task_list (prioritize_tasks w) ! j)"
  shows "i < j"
proof -
  have "sort_key_of (obj w (tasks (prioritize_tasks w) ! i)) <
        sort_key_of (obj w (tasks (prioritize_tasks w) ! j))"
    using assms by (simp only: nth_task_list obj_prioritize_tasks)
  then show ?thesis
    using sorted_keys_nth [OF sorted_prioritize_tasks assms(1,2)] by blast
qed

text \<open>
  C5, amended: after \<^verbatim>\<open>prioritize_tasks\<close>, a task of lower priority value stands before one of
  higher value, whatever the due dates; at equal priority a task with a due date other than
  \<^verbatim>\<open>datetime.max\<close> stands before a task without one; and the tasks of one key keep their
  relative order. A task due at \<^verbatim>\<open>datetime.max\<close> has the key of a task without a due date.
\<close>

theorem prioritize_order:
  "(\<forall>i j. i < length (tasks (prioritize_tasks w)) \<and> j < length (tasks (prioritize_tasks w)) \<and>
      priority (task_list (prioritize_tasks w) ! i) < priority (task_list (prioritize_tasks w) ! j)
      \<longrightarrow> i < j) \<and>
   (\<forall>i j d. i < length (tasks (prioritize_tasks w)) \<and> j < length (tasks (prioritize_tasks w)) \<and>
      priority (task_list (prioritize_tasks w) ! i) = priority (task_list (prioritize_tasks w) ! j) \<and>
      due_date (task_list (prioritize_tasks w) ! i) = Some d \<and> valid_datetime d \<and>
      d \<noteq> datetime_max \<and>
      due_date (task_list (prioritize_tasks w) ! j) = None
      \<longrightarrow> i < j) \<and>
   (\<forall>k. filter (\<lambda>r. sort_key_of (obj w r) = k) (tasks (prioritize_tasks w)) =
        filter (\<lambda>r. sort_key_of (obj w r) = k) (tasks w))"
proof (intro conjI allI impI)
  fix i j
  assume a: "i < length (tasks (prioritize_tasks w)) \<and> j < length (tasks (prioritize_tasks w)) \<and>
      priority (task_list (prioritize_tasks w) ! i) < priority (task_list (prioritize_tasks w) ! j)"
  then have "sort_key_of (task_list (prioritize_tasks w) ! i) <
             sort_key_of (task_list (prioritize_tasks w) ! j)"
    by (simp add: sort_key_of_def)
  with a show "i < j"
    by (blast intro: prioritized_before)
next
  fix i j d
  assume a: "i < length (tasks (prioritize_tasks w)) \<and> j < length (tasks (prioritize_tasks w)) \<and>
      priority (task_list (prioritize_tasks w) ! i) = priority (task_list (prioritize_tasks w) ! j) \<and>
      due_date (task_list (prioritize_tasks w) ! i) = Some d \<and> valid_datetime d \<and>
      d \<noteq> datetime_max \<and>
      due_date (task_list (prioritize_tasks w) ! j) = None"
  then have "dt_tuple d < dt_tuple datetime_max"
    by (simp add: dt_tuple_below_max)
  with a have "sort_key_of (task_list (prioritize_tasks w) ! i) <
             sort_key_of (task_list (prioritize_tasks w) ! j)"
    by (simp add: sort_key_of_def)
  with a show "i < j"
    by (blast intro: prioritized_before)
next
  fix k
  show "filter (\<lambda>r. sort_key_of (obj w r) = k) (tasks (prioritize_tasks w)) =
        filter (\<lambda>r. sort_key_of (obj w r) = k) (tasks w)"
    by (simp add: sort_key_stable)
qed

subsection \<open>The order on concrete collections\<close>

lemmas world_eval = task_list_def obj_def fresh_def Task_def sort_key_of_def dt_tuple_def
  datetime_max_def

text \<open>
  C5 as stated fails: of two tasks of priority 1, the one without a due date was added
  first and the other is due at \<^verbatim>\<open>datetime.max\<close>, a date that Python admits. Both have the
  same key, so the task without a due date stays first.
\<close>

theorem due_date_tie_counterexample:
  "task_list (prioritize_tasks (add_tasks tie_tasks fresh)) =
     [Task 1 ''Read'' 1 None, Task 2 ''Archive'' 1 (Some datetime_max)] \<and>
   valid_datetime datetime_max"
  by (simp add: tie_tasks_def world_eval valid_datetime_def valid_date_def days_in_month_def)

lemma mixed_prioritized:
  "task_list (prioritize_tasks (add_tasks mixed_tasks fresh)) =
   [Task 3 ''Plan'' 0 None, Task 2 ''Write'' 1 (Some jan15), Task 1 ''Read'' 1 None]"
  by (simp add: mixed_tasks_def world_eval jan15_def)

lemma valid_jan15: "valid_datetime jan15 \<and> jan15 \<noteq> datetime_max"
  by (simp add: valid_datetime_def valid_date_def days_in_month_def datetime_max_def jan15_def)

theorem prioritize_order_witness:
  "length (tasks (prioritize_tasks (add_tasks mixed_tasks fresh))) = 3 \<and>
   priority (task_list (prioritize_tasks (add_tasks mixed_tasks fresh)) ! 0) <
   priority (task_list (prioritize_tasks (add_tasks mixed_tasks fresh)) ! 1) \<and>
   priority (task_list (prioritize_tasks (add_tasks mixed_tasks fresh)) ! 1) =
   priority (task_list (prioritize_tasks (add_tasks mixed_tasks fresh)) ! 2) \<and>
   due_date (task_list (prioritize_tasks (add_tasks mixed_tasks fresh)) ! 1) = Some jan15 \<and>
   valid_datetime jan15 \<and> jan15 \<noteq> datetime_max \<and>
   due_date (task_list (prioritize_tasks (add_tasks mixed_tasks fresh)) ! 2) = None \<and>
   (0::nat) < 1 \<and> (1::nat) < 2"
proof -
  let ?w = "add_tasks mixed_tasks fresh"
  have len: "length (tasks (prioritize_tasks ?w)) = 3"
    by (simp add: mixed_tasks_def fresh_def)
  have lower: "priority (task_list (prioritize_tasks ?w) ! 0) <
               priority (task_list (prioritize_tasks ?w) ! 1)"
    by (simp add: mixed_prioritized Task_def)
  have tie: "priority (task_list (prioritize_tasks ?w) ! 1) =
             priority (task_list (prioritize_tasks ?w) ! 2) \<and>
             due_date (task_list (prioritize_tasks ?w) ! 1) = Some jan15 \<and>
             due_date (task_list (prioritize_tasks ?w) ! 2) = None"
    by (simp add: mixed_prioritized Task_def)
  have first: "(0::nat) < 1"
    using prioritize_order [of ?w] len lower by simp
  have "(1::nat) < 2"
    using prioritize_order [of ?w] len tie valid_jan15 by simp
  with first len lower tie valid_jan15 show ?thesis
    by simp
qed

subsection \<open>Unknown ids\<close>

lemma get_task_by_id_unknown:
  assumes "i \<notin> set (map task_id (task_list w))"
  shows "get_task_by_id i w = (None, print (NotFound i) w)"
proof -
  have "find (\<lambda>r. task_id (obj w r) = i) (tasks w) = None"
    using assms by (auto simp: find_None_iff task_list_def)
  then show ?thesis
    by (simp add: get_task_by_id_def)
qed

text \<open>
  C7: for an id that no task of the collection has, \<^verbatim>\<open>remove_task\<close> and
  \<^verbatim>\<open>mark_task_complete\<close> print the not-found message and change nothing else: the
  collection, the task objects, the file and the count of saves are as before.
\<close>

theorem unknown_id_is_noop:
  assumes "i \<notin> set (map task_id (task_list w))"
  shows "remove_task i w = w\<lparr>printed := printed w @ [NotFound i]\<rparr> \<and>
         mark_task_complete i w = w\<lparr>printed := printed w @ [NotFound i]\<rparr>"
  using get_task_by_id_unknown [OF assms]
  by (simp add: remove_task_def mark_task_complete_def print_def)

theorem unknown_id_is_noop_witness:
  "7 \<notin> set (map task_id (task_list (add_tasks driver_tasks fresh))) \<and>
   tasks (remove_task 7 (add_tasks driver_tasks fresh)) = tasks (add_tasks driver_tasks fresh) \<and>
   heap (mark_task_complete 7 (add_tasks driver_tasks fresh)) = heap (add_tasks driver_tasks fresh) \<and>
   disk (remove_task 7 (add_tasks driver_tasks fresh)) = disk (add_tasks driver_tasks fresh) \<and>
   saves (mark_task_complete 7 (add_tasks driver_tasks fresh)) = 3 \<and>
   printed (remove_task 7 (add_tasks driver_tasks fresh)) = [NotFound 7]"
proof -
  let ?w = "add_tasks driver_tasks fresh"
  have unknown: "7 \<notin> set (map task_id (task_list ?w))"
    by (simp add: driver_tasks_def world_eval)
  have "saves ?w = 3" and "printed ?w = []"
    by (simp_all add: driver_tasks_def fresh_def add_task_def new_task_def append_task_def
        save_tasks_def Let_def)
  then show ?thesis
    using unknown unknown_id_is_noop [OF unknown] by simp
qed

subsection \<open>Task objects over time\<close>

lemma heap_evolves_refl: "heap_evolves h h"
  by (simp add: heap_evolves_def)

lemma heap_evolves_trans:
  assumes "heap_evolves h1 h2" and "heap_evolves h2 h3"
  shows "heap_evolves h1 h3"
  unfolding heap_evolves_def
proof (intro conjI allI impI)
  show "length h1 \<le> length h3"
    using assms by (simp add: heap_evolves_def)
next
  fix a
  assume a: "a < length h1"
  then have a2: "a < length h2"
    using assms(1) by (simp add: heap_evolves_def)
  have s1: "task_id (h2 ! a) = task_id (h1 ! a) \<and>
      (status (h2 ! a) = status (h1 ! a) \<or> status (h2 ! a) = ''Completed'')"
    using assms(1) a by (simp add: heap_evolves_def)
  have s2: "task_id (h3 ! a) = task_id (h2 ! a) \<and>
      (status (h3 ! a) = status (h2 ! a) \<or> status (h3 ! a) = ''Completed'')"
    using assms(2) a2 by (simp add: heap_evolves_def)
  show "task_id (h3 ! a) = task_id (h1 ! a)"
    using s1 s2 by simp
  show "status (h3 ! a) = status (h1 ! a) \<or> status (h3 ! a) = ''Completed''"
    using s1 s2 by auto
qed

lemma heap_evolves_append: "heap_evolves h (h @ ts)"
  by (simp add: heap_evolves_def nth_append)

lemma heap_evolves_status: "heap_evolves h (h[r := (h ! r)\<lparr>status := ''Completed''\<rparr>])"
proof (cases "r < length h")
  case True
  then show ?thesis
    by (simp add: heap_evolves_def nth_list_update)
next
  case False
  then have "length h \<le> r"
    by simp
  then show ?thesis
    by (simp only: list_update_beyond heap_evolves_refl)
qed

lemma heap_evolves_due_date: "heap_evolves h (h[r := (h ! r)\<lparr>due_date := x\<rparr>])"
proof (cases "r < length h")
  case True
  then show ?thesis
    by (simp add: heap_evolves_def nth_list_update)
next
  case False
  then have "length h \<le> r"
    by simp
  then show ?thesis
    by (simp only: list_update_beyond heap_evolves_refl)
qed

lemma heap_mark_complete: "heap_evolves (heap w) (heap (mark_complete r w))"
  by (simp add: mark_complete_def obj_def heap_evolves_status)

lemma heap_postpone:
  "final (postpone r days w) = Some w' \<Longrightarrow> heap_evolves (heap w) (heap w')"
  by (auto simp: postpone_def final_def obj_def heap_evolves_due_date heap_evolves_refl
      split: option.splits sum.splits)

lemma heap_get_task_by_id: "heap (snd (get_task_by_id i w)) = heap w"
  by (simp add: get_task_by_id_def split: option.splits)

lemma heap_list_tasks: "heap (list_tasks w) = heap w"
proof -
  have "heap (foldl (\<lambda>w' t. print (TaskLine t) w') w ts) = heap w" for ts
    by (induction ts arbitrary: w) simp_all
  then show ?thesis
    by (simp add: list_tasks_def)
qed

lemma heap_remove_task: "heap (remove_task i w) = heap w"
  by (simp add: remove_task_def get_task_by_id_def split: option.splits)

lemma heap_mark_task_complete: "heap_evolves (heap w) (heap (mark_task_complete i w))"
  by (simp add: mark_task_complete_def get_task_by_id_def heap_mark_complete heap_evolves_refl
      split: option.splits)

lemma heap_load_loop:
  "final (load_loop items w) = Some w' \<Longrightarrow> heap_evolves (heap w) (heap w')"
proof (induction items arbitrary: w)
  case Nil
  then show ?case
    by (simp add: final_def heap_evolves_refl)
next
  case (Cons d ds)
  show ?case
  proof (cases "task_data_fields d")
    case (Inl e)
    with Cons.prems show ?thesis
      by (simp add: final_def heap_evolves_refl)
  next
    case (Inr raw)
    show ?thesis
    proof (cases "typed_task raw")
      case None
      with Inr Cons.prems show ?thesis
        by (simp add: final_def)
    next
      case (Some t)
      let ?w1 = "append_task (length (heap w)) (w\<lparr>heap := heap w @ [t]\<rparr>)"
      have "final (load_loop ds ?w1) = Some w'"
        using Cons.prems Inr Some by (simp add: new_task_def)
      then have "heap_evolves (heap ?w1) (heap w')"
        by (rule Cons.IH)
      moreover have "heap_evolves (heap w) (heap ?w1)"
        by (simp add: append_task_def heap_evolves_append)
      ultimately show ?thesis
        by (blast intro: heap_evolves_trans)
    qed
  qed
qed

lemma heap_load_tasks:
  "final (load_tasks w) = Some w' \<Longrightarrow> heap_evolves (heap w) (heap w')"
  by (auto simp: load_tasks_def final_def heap_evolves_refl
      split: option.splits if_splits file_text.splits sum.splits
      dest: heap_load_loop [unfolded final_def])

lemma heap_exec:
  "final (exec c w) = Some w' \<Longrightarrow> heap_evolves (heap w) (heap w')"
proof (cases c)
  case (AddTask n p d)
  assume "final (exec c w) = Some w'"
  with AddTask show ?thesis
    by (auto simp: final_def heap_evolves_append)
next
  case (MarkTaskComplete i)
  assume "final (exec c w) = Some w'"
  with MarkTaskComplete show ?thesis
    by (auto simp: final_def heap_mark_task_complete)
next
  case LoadTasks
  assume "final (exec c w) = Some w'"
  with LoadTasks show ?thesis
    by (simp add: heap_load_tasks)
next
  case (MarkComplete r)
  assume "final (exec c w) = Some w'"
  with MarkComplete show ?thesis
    by (auto simp: final_def heap_mark_complete)
next
  case (Postpone r days)
  assume "final (exec c w) = Some w'"
  with Postpone show ?thesis
    by (simp add: heap_postpone)
qed (auto simp: final_def heap_evolves_refl heap_get_task_by_id heap_list_tasks heap_remove_task)

lemma heap_run:
  "final (run cs w) = Some w' \<Longrightarrow> heap_evolves (heap w) (heap w')"
proof (induction cs arbitrary: w)
  case Nil
  then show ?case
    by (simp add: final_def heap_evolves_refl)
next
  case (Cons c cs)
  show ?case
  proof (cases "exec c w")
    case (Returns w1)
    then have "final (exec c w) = Some w1"
      by (simp add: final_def)
    then have "heap_evolves (heap w) (heap w1)"
      by (rule heap_exec)
    moreover have "heap_evolves (heap w1) (heap w')"
      using Cons.prems Returns by (simp add: Cons.IH)
    ultimately show ?thesis
      by (rule heap_evolves_trans)
  next
    case (Raises e w1)
    then show ?thesis
      using Cons.prems heap_exec [of c w w'] by simp
  next
    case Unmodelled
    then show ?thesis
      using Cons.prems by (simp add: final_def)
  qed
qed

text \<open>
  C8: whatever calls of the public interface are made, and however the last one ends, a
  task object that was there before is still there, has the \<^verbatim>\<open>task_id\<close> it had, and has
  the \<^verbatim>\<open>status\<close> it had unless that has become \<^verbatim>\<open>"Completed"\<close>. A completed task stays
  completed: no call sets a status back to \<^verbatim>\<open>"Pending"\<close>.
\<close>

theorem task_id_fixed_status_one_way:
  assumes "final (run cs w) = Some w'" and "a < length (heap w)"
  shows "a < length (heap w') \<and>
         task_id (heap w' ! a) = task_id (heap w ! a) \<and>
         (status (heap w' ! a) = status (heap w ! a) \<or> status (heap w' ! a) = ''Completed'') \<and>
         (status (heap w ! a) = ''Completed'' \<longrightarrow> status (heap w' ! a) = ''Completed'')"
  using heap_run [OF assms(1)] assms(2) by (auto simp: heap_evolves_def)

theorem task_id_fixed_status_one_way_witness:
  "final (run [PrioritizeTasks, MarkTaskComplete 1] one_done) =
     Some (mark_task_complete 1 (prioritize_tasks one_done)) \<and>
   0 < length (heap one_done) \<and>
   task_id (heap one_done ! 0) = 1 \<and>
   status (heap one_done ! 0) = ''Completed'' \<and>
   task_id (heap (mark_task_complete 1 (prioritize_tasks one_done)) ! 0) = 1 \<and>
   status (heap (mark_task_complete 1 (prioritize_tasks one_done)) ! 0) = ''Completed''"
proof -
  let ?w' = "mark_task_complete 1 (prioritize_tasks one_done)"
  have ends: "final (run [PrioritizeTasks, MarkTaskComplete 1] one_done) = Some ?w'"
    by (simp add: final_def)
  have before: "heap one_done ! 0 = (Task 1 ''Finish project'' 1 (Some jan16_noon))\<lparr>status := ''Completed''\<rparr>"
    and there: "0 < length (heap one_done)"
    by (simp_all add: one_done_def driver_tasks_def mark_task_complete_def get_task_by_id_def
        mark_complete_def world_eval)
  have "task_id (heap ?w' ! 0) = task_id (heap one_done ! 0) \<and>
        status (heap ?w' ! 0) = ''Completed''"
    using task_id_fixed_status_one_way [OF ends there] before by simp
  then show ?thesis
    using ends there before by (simp add: Task_def)
qed

subsection \<open>Ids after a removal\<close>

text \<open>
  C9: a sequence of calls of \<^verbatim>\<open>add_task\<close> and \<^verbatim>\<open>remove_task\<close> after which the next
  \<^verbatim>\<open>add_task\<close> assigns an id that a task of the collection already has. Two tasks are
  added and the first is removed; the collection then holds one task, with id 2, and the
  next task gets the id \<^verbatim>\<open>len(self.tasks) + 1\<close>, which is 2 again.
\<close>

theorem add_after_remove_repeats_id:
  "run [AddTask ''Read'' 1 None, AddTask ''Write'' 1 (Some jan15), RemoveTask 1] fresh =
     Returns (remove_task 1 (add_task ''Write'' 1 (Some jan15) (add_task ''Read'' 1 None fresh))) \<and>
   map task_id
     (task_list (remove_task 1 (add_task ''Write'' 1 (Some jan15) (add_task ''Read'' 1 None fresh))))
     = [2] \<and>
   map task_id
     (task_list
       (add_task ''Plan'' 0 None
         (remove_task 1 (add_task ''Write'' 1 (Some jan15) (add_task ''Read'' 1 None fresh)))))
     = [2, 2]"
  by (simp add: remove_task_def get_task_by_id_def world_eval)

subsection \<open>Saving and loading concrete files\<close>

lemma show_nat_numeral:
  "show_nat (numeral k) =
     (if (numeral k :: nat) < 10 then [digit_char (numeral k)]
      else show_nat (numeral k div 10) @ [digit_char (numeral k)])"
  by (rule show_nat.simps)

lemma show_nat_0: "show_nat 0 = ''0''"
  by (simp add: show_nat.simps [of 0] digit_char_def)

lemma show_nat_1: "show_nat (Suc 0) = ''1''"
  by (simp add: show_nat.simps [of "Suc 0"] digit_char_def)

lemma replicate_numeral_Cons: "replicate (numeral k) x = x # replicate (pred_numeral k) x"
  by (simp add: numeral_eq_Suc)

lemmas show_nat_eval = show_nat_numeral show_nat_0 show_nat_1 digit_char_def zero_pad_def
  replicate_numeral_Cons

lemma str_jan15: "str_datetime jan15 = ''2024-01-15 00:00:00''"
  by (simp add: str_datetime_def jan15_def show_nat_eval)

lemma str_jan16_noon: "str_datetime jan16_noon = ''2024-01-16 12:30:05.000250''"
  by (simp add: str_datetime_def jan16_noon_def show_nat_eval)

lemmas strptime_eval = strptime_def re_match_def re_Y_def re_lit_def re_m_def re_d_def
  re_two_def re_one_def is_digit_def nonzero_digit_def digit_val_def valid_date_def
  days_in_month_def is_leap_def

lemma strptime_null: "strptime JNull = Inl TypeError"
  by (simp add: strptime_def)

lemma strptime_jan16_noon: "strptime (JStr ''2024-01-16 12:30:05.000250'') = Inl ValueError"
  by (simp add: strptime_eval)

lemma strptime_tomorrow: "strptime (JStr ''tomorrow'') = Inl ValueError"
  by (simp add: strptime_eval)

lemma strptime_jan15: "strptime (JStr ''2024-01-15'') = Inr jan15"
  by (simp add: strptime_eval jan15_def)

lemmas load_eval = TaskManager_def load_tasks_def py_iter_def task_data_fields_def
  subscript_def new_task_def append_task_def uncaught_def one_record_def

text \<open>
  C2: what \<^verbatim>\<open>save_tasks\<close> writes for the three tasks of the driver. The specification has a
  due date written as \<^verbatim>\<open>YYYY-MM-DD\<close> and a missing one as the text \<^verbatim>\<open>"None"\<close>, which is what
  \<^verbatim>\<open>load_tasks\<close> reads. The code writes \<^verbatim>\<open>str(datetime)\<close>, with the time of day, and \<^verbatim>\<open>null\<close>.
\<close>

theorem save_writes_null_and_time_of_day:
  "disk (save_tasks (add_tasks driver_tasks fresh)) =
   Some (Json (JList
     [JObj [(''task_id'', JInt 1), (''name'', JStr ''Finish project''), (''priority'', JInt 1),
            (''due_date'', JStr ''2024-01-16 12:30:05.000250''), (''status'', JStr ''Pending'')],
      JObj [(''task_id'', JInt 2), (''name'', JStr ''Go grocery shopping''), (''priority'', JInt 3),
            (''due_date'', JNull), (''status'', JStr ''Pending'')],
      JObj [(''task_id'', JInt 3), (''name'', JStr ''Call mom''), (''priority'', JInt 2),
            (''due_date'', JStr ''2024-01-15 00:00:00''), (''status'', JStr ''Pending'')]]))"
  by (simp add: add_task_def new_task_def append_task_def save_tasks_def task_dict_def
      driver_tasks_def world_eval Let_def str_jan15 str_jan16_noon)

text \<open>
  C1: \<^verbatim>\<open>save_tasks\<close> and then a new \<^verbatim>\<open>TaskManager\<close>. The specification has the new
  collection hold the tasks that were saved. With one task without a due date, \<^verbatim>\<open>load_tasks\<close> passes \<^verbatim>\<open>None\<close>
  to \<^verbatim>\<open>strptime\<close>, which raises \<^verbatim>\<open>TypeError\<close>; with one task with a due date, the saved text
  has a time of day, and \<^verbatim>\<open>strptime\<close> raises \<^verbatim>\<open>ValueError\<close>. Neither is caught, and no
  \<^verbatim>\<open>TaskManager\<close> is made.
\<close>

theorem save_then_load_raises:
  "uncaught (TaskManager (save_tasks (add_task ''Go grocery shopping'' 3 None fresh))) =
     Some TypeError \<and>
   uncaught (TaskManager (save_tasks (add_task ''Finish project'' 1 (Some jan16_noon) fresh))) =
     Some ValueError"
  by (simp add: add_task_def save_tasks_def task_dict_def world_eval Let_def str_jan16_noon
      load_eval strptime_null strptime_jan16_noon)

text \<open>
  C3: the specification has no failure leave a method uncaught, and the loading of a
  malformed file never raise. \<^verbatim>\<open>load_tasks\<close> catches \<^verbatim>\<open>IOError\<close> and \<^verbatim>\<open>JSONDecodeError\<close> only: a record
  without a \<^verbatim>\<open>task_id\<close> raises \<^verbatim>\<open>KeyError\<close>, a file that holds an object instead of a list
  raises \<^verbatim>\<open>TypeError\<close>, and a due date that is not a date raises \<^verbatim>\<open>ValueError\<close>.
\<close>

theorem load_raises_on_malformed_records:
  "uncaught (TaskManager (fresh\<lparr>disk := Some (Json (JList [JObj [(''name'', JStr ''Call mom'')]]))\<rparr>)) =
     Some KeyError \<and>
   uncaught (TaskManager (fresh\<lparr>disk := Some (Json (JObj [(''tasks'', JList [])]))\<rparr>)) =
     Some TypeError \<and>
   uncaught (TaskManager (fresh\<lparr>disk := Some (one_record (JStr ''tomorrow'') (JStr ''Pending''))\<rparr>)) =
     Some ValueError"
  by (simp add: load_eval fresh_def strptime_tomorrow)

text \<open>
  C10: \<^verbatim>\<open>load_tasks\<close> stores the status of the file as it is: whatever text the record has
  becomes the status of the task. A file that loads without an error can so give a task
  whose status is neither \<^verbatim>\<open>"Pending"\<close> nor \<^verbatim>\<open>"Completed"\<close>.
\<close>

theorem load_keeps_status_verbatim:
  "(\<forall>st. \<exists>w'. TaskManager (fresh\<lparr>disk := Some (one_record (JStr ''None'') (JStr st))\<rparr>) = Returns w' \<and>
      map status (task_list w') = [st]) \<and>
   (\<exists>w'. TaskManager (fresh\<lparr>disk := Some (one_record (JStr ''2024-01-15'') (JStr ''Archived''))\<rparr>) =
      Returns w' \<and>
      task_list w' = [(Task 1 ''Call mom'' 2 (Some jan15))\<lparr>status := ''Archived''\<rparr>] \<and>
      ''Archived'' \<noteq> ''Pending'' \<and> ''Archived'' \<noteq> ''Completed'')"
  by (simp add: load_eval world_eval strptime_jan15)

end
